theory Spec2Isabelle
  imports Complex_Main
begin

section \<open>The notebooks as straight-line programs\<close>

text \<open>
  The repository holds two Jupyter notebooks. Each is a list of code cells, and each code
  cell is a list of statements with no branch, loop, function definition or exception
  handler: every statement is one call into pandas, numpy, Keras or IPython (or an import,
  an attribute assignment, a \<open>del\<close>). A statement is a constructor carrying the call's
  arguments as they stand in the source; a variable is its Python name.
\<close>

type_synonym var = string

datatype nexp = Lit nat | Ref var

datatype layer =
    Conv2D nat "nat \<times> nat" nat string string "nat list option"
  | BatchNormalization
  | MaxPool2D "nat \<times> nat" nat string
  | Dropout rat
  | Flatten
  | Dense nexp string
  | GlobalAveragePooling2D

datatype kwarg = KInt int | KRat rat | KBool bool

datatype optimizer = RMSprop rat

datatype loss = LossName string | BinaryCrossentropy bool

datatype metric = MetricName string | BinaryAccuracy

datatype steps = LenDiv var nat | SamplesPerBatch var

datatype data_source = Flow var var var nat | Iter var

datatype validation = ValArrays var var | ValIter var steps

datatype stmt =
    Import string string
  | ReadCsv var string
  | GetItem var var string
  | DelItem var string
  | Values var var
  | ToCategorical var var nat
  | TrueDiv var var int
  | Reshape var var "int list"
  | AssignNat var nat
  | NewSequential var
  | ModelAdd var layer
  | NewImageDataGenerator var "(string \<times> kwarg) list"
  | DatagenFit var var
  | Compile var "optimizer option" loss "metric list"
  | Fit var data_source nat steps validation
  | Save var string
  | AppInstance var
  | KernelShutdown var bool
  | LoadVGG16 var string "nat list" bool
  | SetTrainable var bool
  | NewInput var "nat list"
  | CallModel var var var bool
  | CallLayer var layer var
  | NewModel var var var
  | Summary var
  | FlowFromDirectory var var string "nat \<times> nat" string string
  | Evaluate var var steps
  | RunAssessment var var

type_synonym cell = "stmt list"
type_synonym notebook = "cell list"

subsection \<open>The data-augmentation notebook\<close>

text \<open>
  The ASL notebook (\<open>src/unnamed/part_000\<close>), code cells in file order. In
  \<open>Import m n\<close> the name \<open>n\<close> is the one the import binds. The keyword arguments of
  \<open>ImageDataGenerator\<close> are kept as the list the source passes.
\<close>

definition augmentation_cell1 :: cell where
  "augmentation_cell1 =
    [ Import ''tensorflow.keras'' ''keras'',
      Import ''pandas'' ''pd'',
      ReadCsv ''train_df'' ''asl_data/sign_mnist_train.csv'',
      ReadCsv ''test_df'' ''asl_data/sign_mnist_test.csv'',
      GetItem ''y_train'' ''train_df'' ''label'',
      GetItem ''y_test'' ''test_df'' ''label'',
      DelItem ''train_df'' ''label'',
      DelItem ''test_df'' ''label'',
      Values ''x_train'' ''train_df'',
      Values ''x_test'' ''test_df'',
      ToCategorical ''y_train'' ''y_train'' 25,
      ToCategorical ''y_test'' ''y_test'' 25,
      TrueDiv ''x_train'' ''x_train'' 255,
      TrueDiv ''x_test'' ''x_test'' 255,
      Reshape ''x_train'' ''x_train'' [-1, 28, 28, 1],
      Reshape ''x_test'' ''x_test'' [-1, 28, 28, 1] ]"

definition augmentation_cell2 :: cell where
  "augmentation_cell2 =
    [ Import ''tensorflow.keras.models'' ''Sequential'',
      Import ''tensorflow.keras.layers'' ''Dense'',
      Import ''tensorflow.keras.layers'' ''Conv2D'',
      Import ''tensorflow.keras.layers'' ''MaxPool2D'',
      Import ''tensorflow.keras.layers'' ''Flatten'',
      Import ''tensorflow.keras.layers'' ''Dropout'',
      Import ''tensorflow.keras.layers'' ''BatchNormalization'',
      AssignNat ''num_classes'' 25,
      NewSequential ''model'',
      ModelAdd ''model'' (Conv2D 75 (3, 3) 1 ''same'' ''relu'' (Some [28, 28, 1])),
      ModelAdd ''model'' BatchNormalization,
      ModelAdd ''model'' (MaxPool2D (2, 2) 2 ''same''),
      ModelAdd ''model'' (Conv2D 50 (3, 3) 1 ''same'' ''relu'' None),
      ModelAdd ''model'' (Dropout (2 / 10)),
      ModelAdd ''model'' BatchNormalization,
      ModelAdd ''model'' (MaxPool2D (2, 2) 2 ''same''),
      ModelAdd ''model'' (Conv2D 25 (3, 3) 1 ''same'' ''relu'' None),
      ModelAdd ''model'' BatchNormalization,
      ModelAdd ''model'' (MaxPool2D (2, 2) 2 ''same''),
      ModelAdd ''model'' Flatten,
      ModelAdd ''model'' (Dense (Lit 512) ''relu''),
      ModelAdd ''model'' (Dropout (3 / 10)),
      ModelAdd ''model'' (Dense (Ref ''num_classes'') ''softmax'') ]"

definition augmentation_cell3 :: cell where
  "augmentation_cell3 =
    [ Import ''tensorflow.keras.preprocessing.image'' ''ImageDataGenerator'',
      NewImageDataGenerator ''datagen''
        [ (''rotation_range'', KInt 10),
          (''zoom_range'', KRat (1 / 10)),
          (''width_shift_range'', KRat (1 / 10)),
          (''height_shift_range'', KRat (1 / 10)),
          (''horizontal_flip'', KBool True),
          (''vertical_flip'', KBool False) ] ]"

definition augmentation_cell4 :: cell where
  "augmentation_cell4 = [ DatagenFit ''datagen'' ''x_train'' ]"

definition augmentation_cell5 :: cell where
  "augmentation_cell5 =
    [ Compile ''model'' None (LossName ''categorical_crossentropy'') [MetricName ''accuracy''] ]"

definition augmentation_cell6 :: cell where
  "augmentation_cell6 =
    [ Fit ''model'' (Flow ''datagen'' ''x_train'' ''y_train'' 32) 20
        (LenDiv ''x_train'' 32) (ValArrays ''x_test'' ''y_test'') ]"

definition augmentation_cell7 :: cell where
  "augmentation_cell7 = [ Save ''model'' ''asl_model'' ]"

definition augmentation_cell8 :: cell where
  "augmentation_cell8 =
    [ Import ''IPython'' ''IPython'',
      AppInstance ''app'',
      KernelShutdown ''app'' True ]"

definition augmentation_notebook :: notebook where
  "augmentation_notebook =
    [ augmentation_cell1, augmentation_cell2, augmentation_cell3, augmentation_cell4,
      augmentation_cell5, augmentation_cell6, augmentation_cell7, augmentation_cell8, [] ]"

subsection \<open>The assessment notebook\<close>

text \<open>The fruit notebook (\<open>src/07_assessment.ipynb\<close>), code cells in file order.\<close>

definition assessment_cell1 :: cell where
  "assessment_cell1 =
    [ Import ''tensorflow'' ''keras'',
      LoadVGG16 ''base_model'' ''imagenet'' [224, 224, 3] False ]"

definition assessment_cell2 :: cell where
  "assessment_cell2 = [ SetTrainable ''base_model'' False ]"

definition assessment_cell3 :: cell where
  "assessment_cell3 =
    [ NewInput ''inputs'' [224, 224, 3],
      CallModel ''x'' ''base_model'' ''inputs'' False,
      CallLayer ''x'' GlobalAveragePooling2D ''x'',
      CallLayer ''outputs'' (Dense (Lit 6) ''softmax'') ''x'',
      NewModel ''model'' ''inputs'' ''outputs'' ]"

definition assessment_cell4 :: cell where
  "assessment_cell4 = [ Summary ''model'' ]"

definition assessment_cell5 :: cell where
  "assessment_cell5 =
    [ Compile ''model'' None (LossName ''categorical_crossentropy'') [MetricName ''accuracy''] ]"

definition assessment_cell6 :: cell where
  "assessment_cell6 =
    [ Import ''tensorflow.keras.preprocessing.image'' ''ImageDataGenerator'',
      NewImageDataGenerator ''datagen''
        [ (''samplewise_center'', KBool True),
          (''rotation_range'', KInt 10),
          (''zoom_range'', KRat (1 / 10)),
          (''width_shift_range'', KRat (1 / 10)),
          (''height_shift_range'', KRat (1 / 10)),
          (''horizontal_flip'', KBool True),
          (''vertical_flip'', KBool False) ] ]"

definition assessment_cell7 :: cell where
  "assessment_cell7 =
    [ FlowFromDirectory ''train_it'' ''datagen'' ''fruits/train/'' (224, 224) ''rgb''
        ''categorical'',
      FlowFromDirectory ''test_it'' ''datagen'' ''fruits/test/'' (224, 224) ''rgb''
        ''categorical'' ]"

definition assessment_cell8 :: cell where
  "assessment_cell8 =
    [ Fit ''model'' (Iter ''train_it'') 20 (SamplesPerBatch ''train_it'')
        (ValIter ''test_it'' (SamplesPerBatch ''test_it'')) ]"

definition assessment_cell9 :: cell where
  "assessment_cell9 =
    [ SetTrainable ''base_model'' True,
      Compile ''model'' (Some (RMSprop (1 / 100000))) (BinaryCrossentropy True)
        [BinaryAccuracy] ]"

definition assessment_cell10 :: cell where
  "assessment_cell10 =
    [ Fit ''model'' (Iter ''train_it'') 20 (SamplesPerBatch ''train_it'')
        (ValIter ''test_it'' (SamplesPerBatch ''test_it'')) ]"

definition assessment_cell11 :: cell where
  "assessment_cell11 = [ Evaluate ''model'' ''test_it'' (SamplesPerBatch ''test_it'') ]"

definition assessment_cell12 :: cell where
  "assessment_cell12 = [ Import ''run_assessment'' ''run_assessment'' ]"

definition assessment_cell13 :: cell where
  "assessment_cell13 = [ RunAssessment ''model'' ''test_it'' ]"

definition assessment_notebook :: notebook where
  "assessment_notebook =
    [ assessment_cell1, assessment_cell2, assessment_cell3, assessment_cell4,
      assessment_cell5, assessment_cell6, assessment_cell7, assessment_cell8,
      assessment_cell9, assessment_cell10, assessment_cell11, assessment_cell12,
      assessment_cell13 ]"

definition repository :: "notebook list" where
  "repository = [augmentation_notebook, assessment_notebook]"

subsection \<open>Reading a notebook\<close>

text \<open>The statements of a notebook in execution order, top to bottom.\<close>

definition program :: "notebook \<Rightarrow> stmt list" where
  "program nb = concat nb"

definition all_statements :: "stmt list" where
  "all_statements = concat (map program repository)"

fun is_compile :: "stmt \<Rightarrow> bool" where
  "is_compile (Compile _ _ _ _) = True"
| "is_compile _ = False"

fun is_fit :: "stmt \<Rightarrow> bool" where
  "is_fit (Fit _ _ _ _ _) = True"
| "is_fit _ = False"

fun is_save :: "stmt \<Rightarrow> bool" where
  "is_save (Save _ _) = True"
| "is_save _ = False"

fun is_grading :: "stmt \<Rightarrow> bool" where
  "is_grading (RunAssessment _ _) = True"
| "is_grading _ = False"

fun is_unfreeze :: "stmt \<Rightarrow> bool" where
  "is_unfreeze (SetTrainable _ b) = b"
| "is_unfreeze _ = False"

text \<open>The statements before the first one that satisfies \<open>P\<close>, and those after it.\<close>

definition before :: "(stmt \<Rightarrow> bool) \<Rightarrow> stmt list \<Rightarrow> stmt list" where
  "before P ss = takeWhile (\<lambda>s. \<not> P s) ss"

definition after :: "(stmt \<Rightarrow> bool) \<Rightarrow> stmt list \<Rightarrow> stmt list" where
  "after P ss = tl (dropWhile (\<lambda>s. \<not> P s) ss)"

text \<open>
  The variables a statement binds and the variables it reads. Only variables that hold
  data, models, generators and iterators are tracked; names bound by imports are not.
\<close>

fun steps_uses :: "steps \<Rightarrow> var list" where
  "steps_uses (LenDiv x _) = [x]"
| "steps_uses (SamplesPerBatch it) = [it]"

fun source_uses :: "data_source \<Rightarrow> var list" where
  "source_uses (Flow g x y _) = [g, x, y]"
| "source_uses (Iter it) = [it]"

fun validation_uses :: "validation \<Rightarrow> var list" where
  "validation_uses (ValArrays x y) = [x, y]"
| "validation_uses (ValIter it st) = it # steps_uses st"

fun layer_uses :: "layer \<Rightarrow> var list" where
  "layer_uses (Dense (Ref v) _) = [v]"
| "layer_uses _ = []"

fun defs :: "stmt \<Rightarrow> var list" where
  "defs (ReadCsv v _) = [v]"
| "defs (GetItem v _ _) = [v]"
| "defs (Values v _) = [v]"
| "defs (ToCategorical v _ _) = [v]"
| "defs (TrueDiv v _ _) = [v]"
| "defs (Reshape v _ _) = [v]"
| "defs (AssignNat v _) = [v]"
| "defs (NewSequential v) = [v]"
| "defs (NewImageDataGenerator v _) = [v]"
| "defs (AppInstance v) = [v]"
| "defs (LoadVGG16 v _ _ _) = [v]"
| "defs (NewInput v _) = [v]"
| "defs (CallModel v _ _ _) = [v]"
| "defs (CallLayer v _ _) = [v]"
| "defs (NewModel v _ _) = [v]"
| "defs (FlowFromDirectory v _ _ _ _ _) = [v]"
| "defs _ = []"

fun uses :: "stmt \<Rightarrow> var list" where
  "uses (GetItem _ df _) = [df]"
| "uses (DelItem df _) = [df]"
| "uses (Values _ df) = [df]"
| "uses (ToCategorical _ y _) = [y]"
| "uses (TrueDiv _ x _) = [x]"
| "uses (Reshape _ x _) = [x]"
| "uses (ModelAdd m l) = m # layer_uses l"
| "uses (DatagenFit g x) = [g, x]"
| "uses (Compile m _ _ _) = [m]"
| "uses (Fit m src _ st val) = m # source_uses src @ steps_uses st @ validation_uses val"
| "uses (Save m _) = [m]"
| "uses (KernelShutdown a _) = [a]"
| "uses (SetTrainable m _) = [m]"
| "uses (CallModel _ m x _) = [m, x]"
| "uses (CallLayer _ l x) = x # layer_uses l"
| "uses (NewModel _ i out) = [i, out]"
| "uses (Summary m) = [m]"
| "uses (FlowFromDirectory _ g _ _ _ _) = [g]"
| "uses (Evaluate m it st) = m # it # steps_uses st"
| "uses (RunAssessment m it) = [m, it]"
| "uses _ = []"

text \<open>
  A statement list is well scoped when every statement reads only variables bound by an
  earlier statement (or bound already, in \<open>bound\<close>).
\<close>

fun well_scoped :: "var list \<Rightarrow> stmt list \<Rightarrow> bool" where
  "well_scoped bound [] = True"
| "well_scoped bound (s # ss) =
     (list_all (\<lambda>v. v \<in> set bound) (uses s) \<and> well_scoped (defs s @ bound) ss)"

text \<open>The statement that last bound \<open>v\<close> in a statement list.\<close>

definition binding :: "var \<Rightarrow> stmt list \<Rightarrow> stmt option" where
  "binding v ss = find (\<lambda>s. v \<in> set (defs s)) (rev ss)"

text \<open>The stage of the pipeline a statement belongs to.\<close>

datatype stage =
  Setup | DataPreparation | Construction | Augmentation | Configuration | Training
  | Inspection | Persistence | Assessment | Teardown

fun stage_of :: "stmt \<Rightarrow> stage" where
  "stage_of (Import _ _) = Setup"
| "stage_of (ReadCsv _ _) = DataPreparation"
| "stage_of (GetItem _ _ _) = DataPreparation"
| "stage_of (DelItem _ _) = DataPreparation"
| "stage_of (Values _ _) = DataPreparation"
| "stage_of (ToCategorical _ _ _) = DataPreparation"
| "stage_of (TrueDiv _ _ _) = DataPreparation"
| "stage_of (Reshape _ _ _) = DataPreparation"
| "stage_of (FlowFromDirectory _ _ _ _ _ _) = DataPreparation"
| "stage_of (AssignNat _ _) = Construction"
| "stage_of (NewSequential _) = Construction"
| "stage_of (ModelAdd _ _) = Construction"
| "stage_of (LoadVGG16 _ _ _ _) = Construction"
| "stage_of (NewInput _ _) = Construction"
| "stage_of (CallModel _ _ _ _) = Construction"
| "stage_of (CallLayer _ _ _) = Construction"
| "stage_of (NewModel _ _ _) = Construction"
| "stage_of (NewImageDataGenerator _ _) = Augmentation"
| "stage_of (DatagenFit _ _) = Augmentation"
| "stage_of (SetTrainable _ _) = Configuration"
| "stage_of (Compile _ _ _ _) = Configuration"
| "stage_of (Fit _ _ _ _ _) = Training"
| "stage_of (Summary _) = Inspection"
| "stage_of (Save _ _) = Persistence"
| "stage_of (Evaluate _ _ _) = Assessment"
| "stage_of (RunAssessment _ _) = Assessment"
| "stage_of (AppInstance _) = Teardown"
| "stage_of (KernelShutdown _ _) = Teardown"

text \<open>The stages a notebook goes through, each maximal run of one stage counted once.\<close>

definition stages :: "notebook \<Rightarrow> stage list" where
  "stages nb = remdups_adj (map stage_of (filter (\<lambda>s. stage_of s \<noteq> Setup) (program nb)))"

fun trained_model :: "stmt \<Rightarrow> var option" where
  "trained_model (Fit m _ _ _ _) = Some m"
| "trained_model _ = None"

fun fit_source :: "stmt \<Rightarrow> data_source option" where
  "fit_source (Fit _ src _ _ _) = Some src"
| "fit_source _ = None"

fun save_path :: "stmt \<Rightarrow> (var \<times> string) option" where
  "save_path (Save m p) = Some (m, p)"
| "save_path _ = None"

text \<open>What a notebook writes to disk: the model saved and the directory it is saved to.\<close>

definition persisted :: "notebook \<Rightarrow> (var \<times> string) list" where
  "persisted nb = List.map_filter save_path (program nb)"

fun compile_config :: "stmt \<Rightarrow> (optimizer option \<times> loss \<times> metric list) option" where
  "compile_config (Compile _ opt l ms) = Some (opt, l, ms)"
| "compile_config _ = None"

definition compiles :: "stmt list \<Rightarrow> (optimizer option \<times> loss \<times> metric list) list" where
  "compiles ss = List.map_filter compile_config ss"

fun generator_options :: "stmt \<Rightarrow> (string \<times> kwarg) list option" where
  "generator_options (NewImageDataGenerator _ kw) = Some kw"
| "generator_options _ = None"

text \<open>The keyword arguments of every \<open>ImageDataGenerator\<close> the repository creates.\<close>

definition generators :: "(string \<times> kwarg) list list" where
  "generators = List.map_filter generator_options all_statements"

text \<open>
  The augmentation the course's notebooks select: rotation by up to 10 degrees, zoom by up
  to 10%, shifts by up to 10% of the width and of the height, horizontal flips, and no
  vertical flip. A generator perturbs images only as listed when these are all the
  options it is given, in any order.
\<close>

definition tutorial_augmentation :: "(string \<times> kwarg) list" where
  "tutorial_augmentation =
    [ (''rotation_range'', KInt 10),
      (''zoom_range'', KRat (1 / 10)),
      (''width_shift_range'', KRat (1 / 10)),
      (''height_shift_range'', KRat (1 / 10)),
      (''horizontal_flip'', KBool True),
      (''vertical_flip'', KBool False) ]"

definition perturbs_only_as_listed :: "(string \<times> kwarg) list \<Rightarrow> bool" where
  "perturbs_only_as_listed kw = (set kw = set tutorial_augmentation)"

definition other_options :: "(string \<times> kwarg) list \<Rightarrow> (string \<times> kwarg) list" where
  "other_options kw = filter (\<lambda>opt. opt \<notin> set tutorial_augmentation) kw"

text \<open>
  The modules of the framework and of the Python environment. An import from any other
  module brings code from outside the notebooks and the framework into the kernel.
\<close>

definition framework_modules :: "string list" where
  "framework_modules =
    [ ''tensorflow'', ''tensorflow.keras'', ''tensorflow.keras.models'',
      ''tensorflow.keras.layers'', ''tensorflow.keras.preprocessing.image'',
      ''pandas'', ''IPython'' ]"

fun external_entry :: "stmt \<Rightarrow> (string \<times> string) option" where
  "external_entry (Import m n) = (if m \<in> set framework_modules then None else Some (m, n))"
| "external_entry _ = None"

section \<open>Running a cell\<close>

text \<open>
  The framework raises what it raises; the notebooks declare no exception of their own.
  The first three errors are the ones the data preparation can meet.
\<close>

datatype error = KeyError | IndexError | ValueError | FrameworkError string

text \<open>
  The kernel session: the variables bound so far and the statements that have completed.
  The framework is a parameter: given the statements completed so far and the next one,
  it says whether the call raises, and what.
\<close>

record session =
  bound :: "var list"
  history :: "stmt list"

type_synonym framework = "stmt list \<Rightarrow> stmt \<Rightarrow> error option"

text \<open>
  One statement. The source has no \<open>try\<close>, so an exception leaves the statement at
  once: the assignment of the statement does not happen and the session stays as it was.
\<close>

definition exec :: "framework \<Rightarrow> stmt \<Rightarrow> session \<Rightarrow> (error \<times> session) + session" where
  "exec fw s st =
     (case fw (history st) s of
        Some e \<Rightarrow> Inl (e, st)
      | None \<Rightarrow> Inr \<lparr> bound = defs s @ bound st, history = history st @ [s] \<rparr>)"

text \<open>
  A cell runs its statements in order. An exception ends the cell: the kernel, the
  cell's caller, receives it with the session as the failing statement found it.
\<close>

fun run :: "framework \<Rightarrow> stmt list \<Rightarrow> session \<Rightarrow> (error \<times> session) + session" where
  "run fw [] st = Inr st"
| "run fw (s # ss) st =
     (case exec fw s st of
        Inl failure \<Rightarrow> Inl failure
      | Inr st' \<Rightarrow> run fw ss st')"

definition fresh_kernel :: session where
  "fresh_kernel = \<lparr> bound = [], history = [] \<rparr>"

section \<open>Freezing and training\<close>

text \<open>
  Modelled from the spec: the framework's \<open>compile\<close> and \<open>fit\<close> are not under src/.
  The glossary's transfer learning reuses a pretrained network and "optionally unfreezes
  its weights for further training": a layer's weights are updated by \<open>fit\<close> exactly when
  the layer was trainable at the last \<open>compile\<close>. What training computes is a parameter,
  \<open>trainer\<close>, from the weights of base and head to their proposed new values.
\<close>

record 'w keras =
  base_trainable :: bool
  head_trainable :: bool
  compiled :: "(bool \<times> bool) option"
  base_weights :: 'w
  head_weights :: 'w

definition loaded :: "'w \<Rightarrow> 'w \<Rightarrow> 'w keras" where
  "loaded pretrained initial =
     \<lparr> base_trainable = True, head_trainable = True, compiled = None,
       base_weights = pretrained, head_weights = initial \<rparr>"

definition fit :: "('w \<times> 'w \<Rightarrow> 'w \<times> 'w) \<Rightarrow> 'w keras \<Rightarrow> 'w keras" where
  "fit trainer k =
     (case compiled k of
        None \<Rightarrow> k
      | Some (train_base, train_head) \<Rightarrow>
          k \<lparr> base_weights :=
                (if train_base then fst (trainer (base_weights k, head_weights k))
                 else base_weights k),
              head_weights :=
                (if train_head then snd (trainer (base_weights k, head_weights k))
                 else head_weights k) \<rparr>)"

text \<open>
  The statements of the assessment notebook that touch the trainable flags, the compiled
  configuration or the weights; every other statement leaves them alone.
\<close>

fun keras_step :: "('w \<times> 'w \<Rightarrow> 'w \<times> 'w) \<Rightarrow> stmt \<Rightarrow> 'w keras \<Rightarrow> 'w keras" where
  "keras_step trainer (SetTrainable m b) k =
     (if m = ''base_model'' then k \<lparr> base_trainable := b \<rparr> else k)"
| "keras_step trainer (Compile m _ _ _) k =
     (if m = ''model'' then k \<lparr> compiled := Some (base_trainable k, head_trainable k) \<rparr>
      else k)"
| "keras_step trainer (Fit m _ _ _ _) k = (if m = ''model'' then fit trainer k else k)"
| "keras_step trainer _ k = k"

fun keras_run :: "('w \<times> 'w \<Rightarrow> 'w \<times> 'w) \<Rightarrow> stmt list \<Rightarrow> 'w keras \<Rightarrow> 'w keras" where
  "keras_run trainer [] k = k"
| "keras_run trainer (s # ss) k = keras_run trainer ss (keras_step trainer s k)"

text \<open>The assessment notebook up to and including its first \<open>fit\<close>, and what follows.\<close>

definition initial_training :: "stmt list" where
  "initial_training =
     before is_fit (program assessment_notebook)
       @ take 1 (dropWhile (\<lambda>s. \<not> is_fit s) (program assessment_notebook))"

definition fine_tuning :: "stmt list" where
  "fine_tuning = after is_fit (program assessment_notebook)"

text \<open>
  Modelled from the spec: the pretrained network is the framework's
  (\<open>keras.applications.VGG16\<close> with \<open>include_top=False\<close>), not under src/. Its thirteen
  convolutions have 3 by 3 kernels; each is listed with its input channels and its filters.
  A convolution has one weight per kernel position, input channel and filter, and one bias
  per filter; a dense layer has one weight per input and unit, and one bias per unit.
\<close>

definition vgg16_convolutions :: "(nat \<times> nat) list" where
  "vgg16_convolutions =
    [ (3, 64), (64, 64),
      (64, 128), (128, 128),
      (128, 256), (256, 256), (256, 256),
      (256, 512), (512, 512), (512, 512),
      (512, 512), (512, 512), (512, 512) ]"

definition conv_params :: "nat \<times> nat \<Rightarrow> nat \<times> nat \<Rightarrow> nat" where
  "conv_params ksize io = fst ksize * snd ksize * fst io * snd io + snd io"

definition dense_params :: "nat \<Rightarrow> nat \<Rightarrow> nat" where
  "dense_params inputs units = inputs * units + units"

definition base_params :: nat where
  "base_params = sum_list (map (conv_params (3, 3)) vgg16_convolutions)"

text \<open>
  The head is the layer bound to \<open>outputs\<close>; global average pooling hands it one input
  per filter of the base model's last convolution.
\<close>

definition head_units :: "nat option" where
  "head_units =
     (case binding ''outputs'' (program assessment_notebook) of
        Some (CallLayer _ (Dense (Lit n) _) _) \<Rightarrow> Some n
      | _ \<Rightarrow> None)"

definition head_params :: "nat option" where
  "head_params = map_option (dense_params (snd (last vgg16_convolutions))) head_units"

text \<open>
  What the stored output of \<open>model.summary()\<close> records (lines 153 to 155 of the
  assessment notebook): total, trainable and non-trainable parameters.
\<close>

definition summary_output :: "nat \<times> nat \<times> nat" where
  "summary_output = (14717766, 3078, 14714688)"

section \<open>The grading script\<close>

text \<open>
  Modelled from the spec: \<open>run_assessment\<close> is imported from a module that is not under
  src/. The spec's only test is "a pass/fail accuracy threshold (\<ge>92%) checked by an
  external grading script against the library's own evaluation output". The library's
  \<open>evaluate\<close> is a parameter; it returns the loss and the accuracy.
\<close>

datatype verdict = Pass | Fail

definition run_assessment :: "('m \<Rightarrow> 'i \<Rightarrow> rat \<times> rat) \<Rightarrow> 'm \<Rightarrow> 'i \<Rightarrow> verdict" where
  "run_assessment evaluate model test_it =
     (if 92 / 100 \<le> snd (evaluate model test_it) then Pass else Fail)"

section \<open>Preparing the data\<close>

text \<open>
  The first cell of the data-augmentation notebook, as functions on values. A data frame
  is what \<open>pd.read_csv\<close> hands back: named columns and rows of integers. Floating-point
  arrays are lists of rationals: \<open>0.0\<close> and \<open>1.0\<close> are exact, and \<open>v / 255\<close> is the
  quotient before rounding.

  Modelled from the spec: pandas, numpy and \<open>keras.utils.to_categorical\<close> are not
  under src/. Selecting and deleting a column raise \<open>KeyError\<close> when the frame has no
  such column. \<open>to_categorical\<close> builds, for each label, a row of zeros of the given
  width and stores 1 at the label's index, with numpy's indexing: a negative index counts
  from the end and an index outside the row raises \<open>IndexError\<close>. \<open>reshape\<close> with a
  leading \<open>-1\<close> regroups the elements in row-major order and raises \<open>ValueError\<close> when
  their number is not a multiple of the size of one example.
\<close>

record dataframe =
  columns :: "string list"
  records :: "int list list"

definition rectangular :: "dataframe \<Rightarrow> bool" where
  "rectangular df = list_all (\<lambda>r. length r = length (columns df)) (records df)"

definition and_then :: "error + 'a \<Rightarrow> ('a \<Rightarrow> error + 'b) \<Rightarrow> error + 'b" where
  "and_then r f = (case r of Inl e \<Rightarrow> Inl e | Inr a \<Rightarrow> f a)"

fun index_of :: "'a \<Rightarrow> 'a list \<Rightarrow> nat option" where
  "index_of a [] = None"
| "index_of a (x # xs) = (if x = a then Some 0 else map_option Suc (index_of a xs))"

definition get_item :: "dataframe \<Rightarrow> string \<Rightarrow> error + int list" where
  "get_item df c =
     (case index_of c (columns df) of
        None \<Rightarrow> Inl KeyError
      | Some i \<Rightarrow> Inr (map (\<lambda>r. r ! i) (records df)))"

definition without :: "nat \<Rightarrow> 'a list \<Rightarrow> 'a list" where
  "without i xs = take i xs @ drop (Suc i) xs"

definition del_item :: "dataframe \<Rightarrow> string \<Rightarrow> error + dataframe" where
  "del_item df c =
     (case index_of c (columns df) of
        None \<Rightarrow> Inl KeyError
      | Some i \<Rightarrow>
          Inr \<lparr> columns = without i (columns df), records = map (without i) (records df) \<rparr>)"

definition values_of :: "dataframe \<Rightarrow> int list list" where
  "values_of df = records df"

definition one_hot :: "nat \<Rightarrow> int \<Rightarrow> error + rat list" where
  "one_hot num_classes y =
     (let n = int num_classes;
          j = (if y < 0 then n + y else y)
      in if 0 \<le> j \<and> j < n then Inr ((replicate num_classes 0) [nat j := 1])
         else Inl IndexError)"

fun to_categorical :: "int list \<Rightarrow> nat \<Rightarrow> error + rat list list" where
  "to_categorical [] num_classes = Inr []"
| "to_categorical (y # ys) num_classes =
     and_then (one_hot num_classes y) (\<lambda>t.
     and_then (to_categorical ys num_classes) (\<lambda>ts. Inr (t # ts)))"

definition scale :: "int \<Rightarrow> rat" where
  "scale v = of_int v / 255"

definition normalize_pixels :: "int list list \<Rightarrow> rat list list" where
  "normalize_pixels x = map (map scale) x"

function chunks :: "nat \<Rightarrow> 'a list \<Rightarrow> 'a list list" where
  "chunks n xs = (if n = 0 \<or> xs = [] then [] else take n xs # chunks n (drop n xs))"
  by pat_completeness auto
termination
  by (relation "measure (\<lambda>(n, xs). length xs)") auto

declare chunks.simps [simp del]

definition reshape :: "rat list list \<Rightarrow> nat \<Rightarrow> nat \<Rightarrow> nat \<Rightarrow> error + rat list list list list" where
  "reshape x h w c =
     (let flat = concat x;
          example = h * w * c
      in if 0 < example \<and> length flat mod example = 0
         then Inr (map (\<lambda>e. map (chunks c) (chunks (w * c) e)) (chunks example flat))
         else Inl ValueError)"

definition prepare_data ::
  "dataframe \<Rightarrow> dataframe \<Rightarrow>
     error + rat list list list list \<times> rat list list \<times> rat list list list list \<times> rat list list"
where
  "prepare_data train_df test_df =
     and_then (get_item train_df ''label'') (\<lambda>y_train.
     and_then (get_item test_df ''label'') (\<lambda>y_test.
     and_then (del_item train_df ''label'') (\<lambda>train_df.
     and_then (del_item test_df ''label'') (\<lambda>test_df.
     let x_train = values_of train_df;
         x_test = values_of test_df
     in
     and_then (to_categorical y_train 25) (\<lambda>y_train.
     and_then (to_categorical y_test 25) (\<lambda>y_test.
     let x_train = normalize_pixels x_train;
         x_test = normalize_pixels x_test
     in
     and_then (reshape x_train 28 28 1) (\<lambda>x_train.
     and_then (reshape x_test 28 28 1) (\<lambda>x_test.
     Inr (x_train, y_train, x_test, y_test)))))))))"

text \<open>An example of \<open>h\<close> rows, \<open>w\<close> pixels a row and \<open>c\<close> channels a pixel.\<close>

definition has_shape :: "nat \<Rightarrow> nat \<Rightarrow> nat \<Rightarrow> rat list list list \<Rightarrow> bool" where
  "has_shape h w c e =
     (length e = h \<and> list_all (\<lambda>r. length r = w \<and> list_all (\<lambda>p. length p = c) r) e)"

text \<open>A target that names one class of \<open>n\<close>: a single 1 among zeros.\<close>

definition names_class :: "nat \<Rightarrow> rat list \<Rightarrow> bool" where
  "names_class n t = list_ex (\<lambda>k. t = (replicate n 0) [k := 1]) [0..<n]"

text \<open>
  Modelled from the spec: \<open>flow_from_directory\<close> is the framework's. Its iterator yields
  images of the target size with one channel per colour of the colour mode.
\<close>

definition channels :: "string \<Rightarrow> nat option" where
  "channels mode =
     (if mode = ''rgb'' then Some 3
      else if mode = ''rgba'' then Some 4
      else if mode = ''grayscale'' then Some 1
      else None)"

fun image_shape :: "stmt \<Rightarrow> nat list option option" where
  "image_shape (FlowFromDirectory _ _ _ (h, w) mode _) =
     Some (map_option (\<lambda>c. [h, w, c]) (channels mode))"
| "image_shape _ = None"

fun class_mode :: "stmt \<Rightarrow> string option" where
  "class_mode (FlowFromDirectory _ _ _ _ _ cm) = Some cm"
| "class_mode _ = None"

fun input_shape :: "stmt \<Rightarrow> nat list option" where
  "input_shape (NewInput _ sh) = Some sh"
| "input_shape _ = None"

text \<open>
  What the stored output of the two \<open>flow_from_directory\<close> calls records (lines 241 and
  242 of the assessment notebook): images found and classes found.
\<close>

definition flow_output :: "(nat \<times> nat) list" where
  "flow_output = [(1182, 6), (329, 6)]"

section \<open>What the notebooks do, in order\<close>

text \<open>
  C3. There is one external grading entry point, \<open>run_assessment\<close>, the only name the
  notebooks import from outside the framework. It is called once in the whole repository,
  as \<open>run_assessment(model, test_it)\<close>: the first argument is the model built by
  \<open>keras.Model(inputs, outputs)\<close>, which both \<open>fit\<close> calls before it have trained, and
  the second is the iterator over \<open>fruits/test/\<close>.
\<close>

theorem single_grading_call:
  "List.map_filter external_entry all_statements = [(''run_assessment'', ''run_assessment'')]
   \<and> filter is_grading all_statements = [RunAssessment ''model'' ''test_it'']
   \<and> filter is_grading (program assessment_notebook) = [RunAssessment ''model'' ''test_it'']
   \<and> binding ''model'' (before is_grading (program assessment_notebook))
       = Some (NewModel ''model'' ''inputs'' ''outputs'')
   \<and> List.map_filter trained_model (before is_grading (program assessment_notebook))
       = [''model'', ''model'']
   \<and> binding ''test_it'' (before is_grading (program assessment_notebook))
       = Some (FlowFromDirectory ''test_it'' ''datagen'' ''fruits/test/'' (224, 224) ''rgb''
            ''categorical'')"
  by code_simp

text \<open>
  C10. The assessment notebook compiles the model twice. The initial training uses the
  categorical cross-entropy loss with the accuracy metric. The fine-tuning step, right
  after the base model is unfrozen, recompiles with \<open>BinaryCrossentropy(from_logits=True)\<close>
  and \<open>BinaryAccuracy\<close>, although the model's output layer is \<open>Dense(6, softmax)\<close>.
\<close>

theorem fine_tuning_recompiles_with_binary_loss:
  "compiles initial_training
     = [(None, LossName ''categorical_crossentropy'', [MetricName ''accuracy''])]
   \<and> compiles fine_tuning
     = [(Some (RMSprop (1 / 100000)), BinaryCrossentropy True, [BinaryAccuracy])]
   \<and> filter is_unfreeze (before is_compile fine_tuning) = [SetTrainable ''base_model'' True]
   \<and> binding ''outputs'' (program assessment_notebook)
     = Some (CallLayer ''outputs'' (Dense (Lit 6) ''softmax'') ''x'')
   \<and> binding ''model'' (program assessment_notebook)
     = Some (NewModel ''model'' ''inputs'' ''outputs'')"
  by code_simp

text \<open>
  C6. The data-augmentation notebook goes through its stages in one fixed order: the CSV
  data is loaded and prepared, the network is built, the generator is set up, the model
  is compiled, \<open>fit\<close> trains it on the generator's \<open>flow\<close>, and only then is the
  model saved. Every statement reads only what an earlier statement has bound.
\<close>

theorem training_notebook_order:
  "stages augmentation_notebook
     = [DataPreparation, Construction, Augmentation, Configuration, Training, Persistence,
        Teardown]
   \<and> List.map_filter fit_source (program augmentation_notebook)
     = [Flow ''datagen'' ''x_train'' ''y_train'' 32]
   \<and> filter is_save (before is_fit (program augmentation_notebook)) = []
   \<and> persisted augmentation_notebook = [(''model'', ''asl_model'')]
   \<and> well_scoped [] (program augmentation_notebook)"
  by code_simp

text \<open>
  C2. The assessment notebook announces that the model is saved and then assessed, but
  no \<open>save\<close> precedes its call of \<open>run_assessment\<close>: the notebook writes nothing to
  disk. The only \<open>save\<close> of the repository is the data-augmentation notebook's, of the
  ASL model.
\<close>

theorem graded_model_never_saved:
  "filter is_save (before is_grading (program assessment_notebook)) = []
   \<and> persisted assessment_notebook = []
   \<and> concat (map persisted repository) = [(''model'', ''asl_model'')]"
  by code_simp

section \<open>Grading\<close>

text \<open>
  C1. The assessment passes exactly when the accuracy that the library's evaluation
  reports for the model on the test iterator is at least 92%. The call of
  \<open>run_assessment\<close> is the only statement of the repository that passes or fails the
  work.
\<close>

theorem assessment_passes_at_threshold:
  "(run_assessment evaluate model test_it = Pass) = (92 / 100 \<le> snd (evaluate model test_it))
   \<and> filter is_grading all_statements = [RunAssessment ''model'' ''test_it'']"
proof -
  have "filter is_grading all_statements = [RunAssessment ''model'' ''test_it'']"
    by code_simp
  then show ?thesis by (simp add: run_assessment_def)
qed

section \<open>Augmentation\<close>

text \<open>
  C5, as the claim states it: every generator perturbs images only by the rotation, zoom,
  shifts and horizontal flips listed. The assessment notebook's generator is also given
  \<open>samplewise_center=True\<close>, so the statement fails.
\<close>

theorem generators_perturb_only_as_listed_counterexample:
  "\<not> list_all perturbs_only_as_listed generators"
  by code_simp

text \<open>
  C5, amended. Every generator is given rotation by up to 10 degrees, zoom by up to 10%,
  shifts by up to 10% of the width and of the height, horizontal flips, and
  \<open>vertical_flip=False\<close>. The data-augmentation notebook's generator is given nothing
  else; the assessment notebook's is also given \<open>samplewise_center=True\<close>, and nothing
  else.
\<close>

theorem generators_augmentation_and_centering:
  "list_all
     (\<lambda>kw. set kw - {(''samplewise_center'', KBool True)} = set tutorial_augmentation)
     generators
   \<and> map other_options generators = [[], [(''samplewise_center'', KBool True)]]
   \<and> map (\<lambda>kw. map_of kw ''vertical_flip'') generators
     = [Some (KBool False), Some (KBool False)]"
  by code_simp

section \<open>Transfer learning\<close>

lemma initial_training_statements:
  "initial_training =
    [ Import ''tensorflow'' ''keras'',
      LoadVGG16 ''base_model'' ''imagenet'' [224, 224, 3] False,
      SetTrainable ''base_model'' False,
      NewInput ''inputs'' [224, 224, 3],
      CallModel ''x'' ''base_model'' ''inputs'' False,
      CallLayer ''x'' GlobalAveragePooling2D ''x'',
      CallLayer ''outputs'' (Dense (Lit 6) ''softmax'') ''x'',
      NewModel ''model'' ''inputs'' ''outputs'',
      Summary ''model'',
      Compile ''model'' None (LossName ''categorical_crossentropy'') [MetricName ''accuracy''],
      Import ''tensorflow.keras.preprocessing.image'' ''ImageDataGenerator'',
      NewImageDataGenerator ''datagen''
        [ (''samplewise_center'', KBool True),
          (''rotation_range'', KInt 10),
          (''zoom_range'', KRat (1 / 10)),
          (''width_shift_range'', KRat (1 / 10)),
          (''height_shift_range'', KRat (1 / 10)),
          (''horizontal_flip'', KBool True),
          (''vertical_flip'', KBool False) ],
      FlowFromDirectory ''train_it'' ''datagen'' ''fruits/train/'' (224, 224) ''rgb''
        ''categorical'',
      FlowFromDirectory ''test_it'' ''datagen'' ''fruits/test/'' (224, 224) ''rgb''
        ''categorical'',
      Fit ''model'' (Iter ''train_it'') 20 (SamplesPerBatch ''train_it'')
        (ValIter ''test_it'' (SamplesPerBatch ''test_it'')) ]"
  by code_simp

lemma fine_tuning_statements:
  "fine_tuning =
    [ SetTrainable ''base_model'' True,
      Compile ''model'' (Some (RMSprop (1 / 100000))) (BinaryCrossentropy True)
        [BinaryAccuracy],
      Fit ''model'' (Iter ''train_it'') 20 (SamplesPerBatch ''train_it'')
        (ValIter ''test_it'' (SamplesPerBatch ''test_it'')),
      Evaluate ''model'' ''test_it'' (SamplesPerBatch ''test_it''),
      Import ''run_assessment'' ''run_assessment'',
      RunAssessment ''model'' ''test_it'' ]"
  by code_simp

lemma after_initial_training:
  "keras_run trainer initial_training (loaded pretrained initial)
     = \<lparr> base_trainable = False, head_trainable = True, compiled = Some (False, True),
         base_weights = pretrained, head_weights = snd (trainer (pretrained, initial)) \<rparr>"
  by (simp add: initial_training_statements loaded_def fit_def)

lemma base_params_value: "base_params = 14714688"
  by (simp add: base_params_def vgg16_convolutions_def conv_params_def)

lemma head_params_value: "head_params = Some 3078"
  by code_simp

text \<open>
  C4. In the initial training the base model is frozen before the model is compiled, and
  nothing unfreezes it before the first \<open>fit\<close>. Whatever training computes, the first
  \<open>fit\<close> leaves the pretrained weights of the base model as they were and updates the
  head only. The head, a dense layer of 6 units on 512 inputs, has 3,078 parameters and the
  base model 14,714,688, as the stored summary records. The base model is unfrozen only in
  the fine-tuning step, where the recompiled model trains both.
\<close>

theorem base_frozen_during_initial_training:
  "filter (\<lambda>s. stage_of s = Configuration) initial_training
     = [ SetTrainable ''base_model'' False,
         Compile ''model'' None (LossName ''categorical_crossentropy'')
           [MetricName ''accuracy''] ]
   \<and> filter is_unfreeze initial_training = []
   \<and> base_weights (keras_run trainer initial_training (loaded pretrained initial))
     = pretrained
   \<and> head_weights (keras_run trainer initial_training (loaded pretrained initial))
     = snd (trainer (pretrained, initial))
   \<and> filter is_unfreeze fine_tuning = [SetTrainable ''base_model'' True]
   \<and> compiled (keras_run trainer (before is_fit fine_tuning)
        (keras_run trainer initial_training (loaded pretrained initial)))
     = Some (True, True)
   \<and> head_params = Some 3078
   \<and> base_params = 14714688
   \<and> summary_output = (base_params + 3078, 3078, base_params)"
proof (intro conjI)
  show "filter (\<lambda>s. stage_of s = Configuration) initial_training
     = [ SetTrainable ''base_model'' False,
         Compile ''model'' None (LossName ''categorical_crossentropy'')
           [MetricName ''accuracy''] ]"
    by (simp add: initial_training_statements)
  show "filter is_unfreeze initial_training = []"
    by (simp add: initial_training_statements)
  show "base_weights (keras_run trainer initial_training (loaded pretrained initial))
     = pretrained"
    by (simp add: after_initial_training)
  show "head_weights (keras_run trainer initial_training (loaded pretrained initial))
     = snd (trainer (pretrained, initial))"
    by (simp add: after_initial_training)
  show "filter is_unfreeze fine_tuning = [SetTrainable ''base_model'' True]"
    by (simp add: fine_tuning_statements)
  show "compiled (keras_run trainer (before is_fit fine_tuning)
        (keras_run trainer initial_training (loaded pretrained initial)))
     = Some (True, True)"
    by (simp add: after_initial_training fine_tuning_statements before_def)
  show "head_params = Some 3078" by (rule head_params_value)
  show "base_params = 14714688" by (rule base_params_value)
  show "summary_output = (base_params + 3078, 3078, base_params)"
    by (simp add: base_params_value summary_output_def)
qed

section \<open>Exceptions\<close>

lemma run_append:
  "run fw (xs @ ys) st =
     (case run fw xs st of Inl failure \<Rightarrow> Inl failure | Inr st' \<Rightarrow> run fw ys st')"
  by (induction xs arbitrary: st) (auto split: sum.splits)

lemma run_history:
  "run fw ss st = Inr st' \<Longrightarrow> history st' = history st @ ss"
  by (induction ss arbitrary: st) (auto simp: exec_def split: sum.splits option.splits)

text \<open>
  C7. Whatever the framework raises at a statement of a cell reaches the cell's caller
  unchanged: the cell ends with that very exception, and the session is the one the
  statements before it built. Nothing after the failing statement runs, and the failing
  statement is not tried again.
\<close>

theorem exception_propagates_unchanged:
  assumes "cell \<in> set (concat repository)"
    and "cell = pre @ s # post"
    and "run fw pre st = Inr st'"
    and "fw (history st') s = Some e"
  shows "run fw cell st = Inl (e, st') \<and> history st' = history st @ pre"
  using assms by (simp add: run_append exec_def run_history)

theorem exception_propagates_unchanged_witness:
  "run (\<lambda>h s. if s = GetItem ''y_test'' ''test_df'' ''label'' then Some KeyError else None)
       augmentation_cell1 fresh_kernel
     = Inl (KeyError,
         \<lparr> bound = [''y_train'', ''test_df'', ''train_df''],
           history = take 5 augmentation_cell1 \<rparr>)"
proof -
  let ?fw = "\<lambda>(h :: stmt list) s.
    if s = GetItem ''y_test'' ''test_df'' ''label'' then Some KeyError else None"
  let ?st = "\<lparr> bound = [''y_train'', ''test_df'', ''train_df''],
               history = take 5 augmentation_cell1 \<rparr>"
  have 1: "augmentation_cell1 \<in> set (concat repository)"
    by (simp add: repository_def augmentation_notebook_def)
  have 2: "augmentation_cell1
      = take 5 augmentation_cell1 @ GetItem ''y_test'' ''test_df'' ''label''
          # drop 6 augmentation_cell1"
    by (simp add: augmentation_cell1_def)
  have 3: "run ?fw (take 5 augmentation_cell1) fresh_kernel = Inr ?st"
    by (simp add: augmentation_cell1_def exec_def fresh_kernel_def)
  have 4: "?fw (history ?st) (GetItem ''y_test'' ''test_df'' ''label'') = Some KeyError"
    by simp
  from exception_propagates_unchanged [OF 1 2 3 4] show ?thesis by simp
qed

section \<open>Labels and pixels\<close>

lemma one_hot_in_range:
  "0 \<le> y \<Longrightarrow> y < int n \<Longrightarrow> one_hot n y = Inr ((replicate n 0) [nat y := 1])"
  by (simp add: one_hot_def Let_def)

lemma to_categorical_in_range:
  "\<forall>y\<in>set ys. 0 \<le> y \<and> y < int n \<Longrightarrow>
     to_categorical ys n = Inr (map (\<lambda>y. (replicate n 0) [nat y := 1]) ys)"
  by (induction ys) (simp_all add: one_hot_in_range and_then_def)

lemma scale_range: "0 \<le> v \<Longrightarrow> v \<le> 255 \<Longrightarrow> 0 \<le> scale v \<and> scale v \<le> 1"
  by (simp add: scale_def)

text \<open>
  C9. For labels from 0 to 24, \<open>to_categorical\<close> with 25 classes succeeds and gives one
  target a label, each of length 25, with 1 at the label's index and 0 elsewhere. The
  normalization maps every pixel value \<open>v\<close> from 0 to 255 to \<open>v / 255\<close>, which lies
  between 0 and 1.
\<close>

theorem label_conversion_and_normalization:
  assumes labels: "\<forall>y\<in>set ys. 0 \<le> y \<and> y < 25"
    and pixels: "\<forall>r\<in>set x. \<forall>v\<in>set r. 0 \<le> v \<and> v \<le> 255"
  shows "(\<exists>ts. to_categorical ys 25 = Inr ts \<and> length ts = length ys \<and>
            (\<forall>k<length ys. length (ts ! k) = 25 \<and>
               (\<forall>i<25. ts ! k ! i = (if int i = ys ! k then 1 else 0)))) \<and>
         length (normalize_pixels x) = length x \<and>
         (\<forall>i<length x. length (normalize_pixels x ! i) = length (x ! i) \<and>
            (\<forall>j<length (x ! i).
               normalize_pixels x ! i ! j = of_int (x ! i ! j) / 255 \<and>
               0 \<le> normalize_pixels x ! i ! j \<and> normalize_pixels x ! i ! j \<le> 1))"
proof (intro conjI)
  let ?ts = "map (\<lambda>y. (replicate 25 (0::rat)) [nat y := 1]) ys"
  have conv: "to_categorical ys 25 = Inr ?ts"
    using labels to_categorical_in_range [of ys 25] by simp
  have "\<forall>k<length ys. length (?ts ! k) = 25 \<and>
          (\<forall>i<25. ?ts ! k ! i = (if int i = ys ! k then 1 else 0))"
  proof (intro allI impI conjI)
    fix k assume k: "k < length ys"
    then show "length (?ts ! k) = 25" by simp
    fix i :: nat assume i: "i < 25"
    from k labels have range: "0 \<le> ys ! k" "ys ! k < 25" by auto
    then have "nat (ys ! k) < 25" by simp
    with i k range show "?ts ! k ! i = (if int i = ys ! k then 1 else 0)"
      by (auto simp: nth_list_update)
  qed
  with conv show "\<exists>ts. to_categorical ys 25 = Inr ts \<and> length ts = length ys \<and>
      (\<forall>k<length ys. length (ts ! k) = 25 \<and>
         (\<forall>i<25. ts ! k ! i = (if int i = ys ! k then 1 else 0)))"
    by simp
next
  show "length (normalize_pixels x) = length x" by (simp add: normalize_pixels_def)
next
  show "\<forall>i<length x. length (normalize_pixels x ! i) = length (x ! i) \<and>
     (\<forall>j<length (x ! i).
        normalize_pixels x ! i ! j = of_int (x ! i ! j) / 255 \<and>
        0 \<le> normalize_pixels x ! i ! j \<and> normalize_pixels x ! i ! j \<le> 1)"
  proof (intro allI impI conjI)
    fix i assume i: "i < length x"
    then show "length (normalize_pixels x ! i) = length (x ! i)" by (simp add: normalize_pixels_def)
    fix j assume j: "j < length (x ! i)"
    with i pixels have v: "0 \<le> x ! i ! j" "x ! i ! j \<le> 255"
      by (metis nth_mem)+
    from i j have eq: "normalize_pixels x ! i ! j = scale (x ! i ! j)" by (simp add: normalize_pixels_def)
    then show "normalize_pixels x ! i ! j = of_int (x ! i ! j) / 255" by (simp add: scale_def)
    from eq v scale_range show "0 \<le> normalize_pixels x ! i ! j" by simp
    from eq v scale_range show "normalize_pixels x ! i ! j \<le> 1" by simp
  qed
qed

theorem label_conversion_and_normalization_witness:
  "(\<exists>ts. to_categorical [3, 0, 24] 25 = Inr ts \<and> length ts = 3 \<and>
        ts ! 0 ! 3 = 1 \<and> ts ! 0 ! 4 = 0 \<and> ts ! 2 ! 24 = 1 \<and> ts ! 2 ! 0 = 0) \<and>
   normalize_pixels [[0, 51, 255]] ! 0 ! 1 = 1 / 5"
proof -
  have labels: "\<forall>y\<in>set [3, 0, 24 :: int]. 0 \<le> y \<and> y < 25" by simp
  have pixels: "\<forall>r\<in>set [[0, 51, 255 :: int]]. \<forall>v\<in>set r. 0 \<le> v \<and> v \<le> 255" by simp
  from label_conversion_and_normalization [OF labels pixels]
  obtain ts where ts: "to_categorical [3, 0, 24] 25 = Inr ts" "length ts = 3"
    and rows: "\<forall>k<3. length (ts ! k) = 25 \<and>
         (\<forall>i<25. ts ! k ! i = (if int i = [3, 0, 24] ! k then 1 else 0))"
    and px: "\<forall>j<3. normalize_pixels [[0, 51, 255]] ! 0 ! j = of_int ([[0, 51, 255]] ! 0 ! j) / 255"
    by auto
  from rows have "ts ! 0 ! 3 = 1" "ts ! 0 ! 4 = 0" "ts ! 2 ! 24 = 1" "ts ! 2 ! 0 = 0"
    by simp_all
  moreover have "normalize_pixels [[0, 51, 255]] ! 0 ! 1 = 1 / 5"
    using px [rule_format, of 1] by simp
  ultimately show ?thesis using ts by simp
qed

section \<open>Prepared data\<close>

lemma and_then_Inr:
  "and_then r f = Inr b \<longleftrightarrow> (\<exists>a. r = Inr a \<and> f a = Inr b)"
  by (cases r) (simp_all add: and_then_def)

lemma chunks_step:
  "0 < n \<Longrightarrow> xs \<noteq> [] \<Longrightarrow> chunks n xs = take n xs # chunks n (drop n xs)"
  by (subst chunks.simps) simp

lemma chunks_empty: "chunks n [] = []"
  by (subst chunks.simps) simp

lemma whole_chunk:
  assumes "0 < n" and "length xs mod n = 0" and "xs \<noteq> []"
  shows "n \<le> length xs" and "length (drop n xs) mod n = 0"
proof -
  from assms show "n \<le> length xs"
    by (metis length_greater_0_conv mod_less not_less less_irrefl)
  then show "length (drop n xs) mod n = 0"
    using assms by (simp add: mod_eq_0_iff_dvd)
qed

lemma chunks_lengths:
  "0 < n \<Longrightarrow> length xs mod n = 0 \<Longrightarrow> c \<in> set (chunks n xs) \<Longrightarrow> length c = n"
proof (induction n xs rule: chunks.induct)
  case (1 n xs)
  show ?case
  proof (cases "xs = []")
    case True
    with 1 show ?thesis by (simp add: chunks_empty)
  next
    case False
    note whole = whole_chunk [OF "1.prems"(1,2) False]
    from "1.prems" False have "c = take n xs \<or> c \<in> set (chunks n (drop n xs))"
      by (simp add: chunks_step)
    then show ?thesis
    proof
      assume "c = take n xs"
      with whole show ?thesis by simp
    next
      assume "c \<in> set (chunks n (drop n xs))"
      with "1.IH" "1.prems" False whole show ?thesis by simp
    qed
  qed
qed

lemma chunks_count:
  "0 < n \<Longrightarrow> length xs mod n = 0 \<Longrightarrow> length (chunks n xs) = length xs div n"
proof (induction n xs rule: chunks.induct)
  case (1 n xs)
  show ?case
  proof (cases "xs = []")
    case True
    then show ?thesis by (simp add: chunks_empty)
  next
    case False
    note whole = whole_chunk [OF "1.prems"(1,2) False]
    have "length (chunks n xs) = Suc (length (chunks n (drop n xs)))"
      using "1.prems" False by (simp add: chunks_step)
    also have "\<dots> = Suc ((length xs - n) div n)"
      using "1.IH" "1.prems" False whole by simp
    also have "\<dots> = length xs div n"
      using whole "1.prems"(1) by (simp add: le_div_geq)
    finally show ?thesis .
  qed
qed

lemma reshape_Inr:
  assumes "reshape x h w c = Inr es"
  shows "0 < h * w * c \<and> length (concat x) mod (h * w * c) = 0 \<and>
         es = map (\<lambda>e. map (chunks c) (chunks (w * c) e)) (chunks (h * w * c) (concat x))"
proof (cases "0 < h * w * c \<and> length (concat x) mod (h * w * c) = 0")
  case True
  then have "reshape x h w c
      = Inr (map (\<lambda>e. map (chunks c) (chunks (w * c) e)) (chunks (h * w * c) (concat x)))"
    unfolding reshape_def Let_def by simp
  with assms True show ?thesis by (simp only: sum.inject) 
next
  case False
  then have "reshape x h w c = Inl ValueError"
    unfolding reshape_def Let_def by simp
  with assms show ?thesis by simp
qed

lemma rows_shape:
  assumes w: "0 < w" and c: "0 < c" and len: "length e = h * (w * c)"
  shows "has_shape h w c (map (chunks c) (chunks (w * c) e))"
proof -
  from w c have wc: "0 < w * c" by simp
  from len have whole: "length e mod (w * c) = 0" by simp
  have "length (chunks (w * c) e) = length e div (w * c)"
    by (rule chunks_count [OF wc whole])
  also from len wc have "\<dots> = h" by simp
  finally have rows: "length (chunks (w * c) e) = h" .
  have "length (chunks c r) = w \<and> list_all (\<lambda>p. length p = c) (chunks c r)"
    if r: "r \<in> set (chunks (w * c) e)" for r
  proof -
    from chunks_lengths [OF wc whole r] have lr: "length r = w * c" .
    then have wr: "length r mod c = 0" by simp
    have "length (chunks c r) = length r div c"
      by (rule chunks_count [OF c wr])
    also from lr c have "\<dots> = w" by simp
    finally have "length (chunks c r) = w" .
    moreover have "\<forall>p\<in>set (chunks c r). length p = c"
      using chunks_lengths [OF c wr] by blast
    ultimately show ?thesis by (simp add: list_all_iff)
  qed
  then have "\<forall>r\<in>set (chunks (w * c) e).
      length (chunks c r) = w \<and> list_all (\<lambda>p. length p = c) (chunks c r)"
    by blast
  with rows show ?thesis
    unfolding has_shape_def list_all_iff by simp
qed

lemma reshape_shape:
  assumes "reshape x h w c = Inr es"
  shows "list_all (has_shape h w c) es"
proof -
  note r = reshape_Inr [OF assms]
  from r have pos: "0 < h * w * c" and whole: "length (concat x) mod (h * w * c) = 0"
    by blast+
  from pos have w: "0 < w" and c: "0 < c" by simp_all
  have "has_shape h w c (map (chunks c) (chunks (w * c) e))"
    if e: "e \<in> set (chunks (h * w * c) (concat x))" for e
  proof -
    from chunks_lengths [OF pos whole e] have "length e = h * (w * c)"
      by (simp only: mult.assoc)
    with w c show ?thesis by (rule rows_shape)
  qed
  moreover from r have "es = map (\<lambda>e. map (chunks c) (chunks (w * c) e))
      (chunks (h * w * c) (concat x))" by blast
  ultimately show ?thesis by (simp add: list_all_iff)
qed

lemma one_hot_names_class:
  assumes "one_hot n y = Inr t"
  shows "length t = n \<and> names_class n t"
proof -
  define j where "j = (if y < 0 then int n + y else y)"
  from assms have range: "0 \<le> j" "j < int n" and t: "t = (replicate n 0) [nat j := 1]"
    by (auto simp: one_hot_def Let_def j_def split: if_splits)
  from range have "nat j \<in> set [0..<n]" by simp
  with t show ?thesis
    unfolding names_class_def list_ex_iff by auto
qed

lemma to_categorical_names_class:
  "to_categorical ys n = Inr ts \<Longrightarrow>
     length ts = length ys \<and> list_all (\<lambda>t. length t = n \<and> names_class n t) ts"
proof (induction ys arbitrary: ts)
  case Nil
  then show ?case by simp
next
  case (Cons y ys)
  then obtain t ts' where "one_hot n y = Inr t" "to_categorical ys n = Inr ts'" "ts = t # ts'"
    by (auto simp: and_then_Inr)
  with Cons.IH [of ts'] one_hot_names_class [of n y t] show ?case by simp
qed

lemma prepare_data_Inr:
  assumes "prepare_data train_df test_df = Inr (x_train, y_train, x_test, y_test)"
  shows "\<exists>labels_train labels_test pixels_train pixels_test.
           to_categorical labels_train 25 = Inr y_train \<and>
           to_categorical labels_test 25 = Inr y_test \<and>
           reshape pixels_train 28 28 1 = Inr x_train \<and>
           reshape pixels_test 28 28 1 = Inr x_test"
  using assms unfolding prepare_data_def Let_def and_then_Inr by blast

lemma prepared_shapes:
  assumes "prepare_data train_df test_df = Inr (x_train, y_train, x_test, y_test)"
  shows "list_all (has_shape 28 28 1) (x_train @ x_test) \<and>
         list_all (\<lambda>t. length t = 25 \<and> names_class 25 t) (y_train @ y_test)"
proof -
  from prepare_data_Inr [OF assms] obtain labels_train labels_test pixels_train pixels_test
    where "to_categorical labels_train 25 = Inr y_train"
      and "to_categorical labels_test 25 = Inr y_test"
      and "reshape pixels_train 28 28 1 = Inr x_train"
      and "reshape pixels_test 28 28 1 = Inr x_test"
    by blast
  then show ?thesis
    using to_categorical_names_class [of labels_train 25 y_train]
      to_categorical_names_class [of labels_test 25 y_test]
      reshape_shape [of pixels_train 28 28 1 x_train]
      reshape_shape [of pixels_test 28 28 1 x_test]
    by simp
qed

lemma chunks_replicate:
  "0 < n \<Longrightarrow> chunks n (replicate (k * n) a) = replicate k (replicate n a)"
proof (induction k)
  case 0
  then show ?case by (simp add: chunks_empty)
next
  case (Suc k)
  from Suc.prems have "replicate (Suc k * n) a \<noteq> []" by simp
  with Suc.prems have "chunks n (replicate (Suc k * n) a)
      = take n (replicate (Suc k * n) a) # chunks n (drop n (replicate (Suc k * n) a))"
    by (rule chunks_step)
  with Suc show ?case by simp
qed

lemma one_example:
  "reshape [replicate 784 a] 28 28 1 = Inr [replicate 28 (replicate 28 [a])]"
  using chunks_replicate [of 784 1 a] chunks_replicate [of 28 28 a]
    chunks_replicate [of 1 28 "a"]
  by (simp add: reshape_def)

lemma assessment_shapes:
  "List.map_filter image_shape (program assessment_notebook)
     = [Some [224, 224, 3], Some [224, 224, 3]]
   \<and> List.map_filter input_shape (program assessment_notebook) = [[224, 224, 3]]
   \<and> List.map_filter class_mode (program assessment_notebook)
     = [''categorical'', ''categorical'']
   \<and> head_units = Some 6
   \<and> concat (map persisted repository) = [(''model'', ''asl_model'')]"
  by code_simp

text \<open>
  C8. When the data preparation of the ASL notebook succeeds, every training and test
  example is an array of 28 rows of 28 pixels of 1 channel, and every target is a vector
  of length 25 that names one of the 25 classes. In the assessment notebook both
  iterators yield images of shape 224 by 224 by 3, the shape of the model's input, with
  categorical targets over the 6 classes found, one for each unit of the output layer. The
  only thing the repository writes to disk is the saved-model directory \<open>asl_model\<close>.
\<close>

theorem prepared_examples_and_persisted_artifact:
  assumes "rectangular train_df" and "rectangular test_df"
    and "prepare_data train_df test_df = Inr (x_train, y_train, x_test, y_test)"
  shows "list_all (has_shape 28 28 1) (x_train @ x_test)
    \<and> list_all (\<lambda>t. length t = 25 \<and> names_class 25 t) (y_train @ y_test)
    \<and> List.map_filter image_shape (program assessment_notebook)
      = [Some [224, 224, 3], Some [224, 224, 3]]
    \<and> List.map_filter input_shape (program assessment_notebook) = [[224, 224, 3]]
    \<and> List.map_filter class_mode (program assessment_notebook)
      = [''categorical'', ''categorical'']
    \<and> map snd flow_output = [6, 6]
    \<and> head_units = Some 6
    \<and> concat (map persisted repository) = [(''model'', ''asl_model'')]"
  using prepared_shapes [OF assms(3)] assessment_shapes by (simp add: flow_output_def)

theorem prepared_examples_and_persisted_artifact_witness:
  "prepare_data
      \<lparr> columns = ''label'' # replicate 784 ''pixel'', records = [3 # replicate 784 255] \<rparr>
      \<lparr> columns = ''label'' # replicate 784 ''pixel'', records = [24 # replicate 784 0] \<rparr>
     = Inr ([replicate 28 (replicate 28 [1])], [(replicate 25 0) [3 := 1]],
            [replicate 28 (replicate 28 [0])], [(replicate 25 0) [24 := 1]])
   \<and> list_all (has_shape 28 28 1)
       ([replicate 28 (replicate 28 [1])] @ [replicate 28 (replicate 28 [0])])
   \<and> list_all (\<lambda>t. length t = 25 \<and> names_class 25 t)
       ([(replicate 25 0) [3 := 1]] @ [(replicate 25 0) [24 := 1]])"
proof -
  let ?train = "\<lparr> columns = ''label'' # replicate 784 ''pixel'',
                  records = [3 # replicate 784 255] \<rparr>"
  let ?test = "\<lparr> columns = ''label'' # replicate 784 ''pixel'',
                 records = [24 # replicate 784 0] \<rparr>"
  have train: "rectangular ?train" and test: "rectangular ?test"
    by (simp_all add: rectangular_def)
  have prepared: "prepare_data ?train ?test
      = Inr ([replicate 28 (replicate 28 [1])], [(replicate 25 0) [3 := 1]],
             [replicate 28 (replicate 28 [0])], [(replicate 25 0) [24 := 1]])"
    by (simp add: prepare_data_def get_item_def del_item_def without_def values_of_def
        one_hot_def normalize_pixels_def scale_def and_then_def one_example
        del: One_nat_def)
  from prepared_examples_and_persisted_artifact [OF train test prepared] prepared
  show ?thesis by blast
qed

end
